theory Spec2Isabelle
  imports Complex_Main "HOL-Library.Word" "HOL-Library.Monad_Syntax"
begin

section \<open>Bytes, \<open>struct.pack\<close> and binary files\<close>

text \<open>
  The fixture generators of Aegis-Assets are Python scripts that write byte strings to a
  file opened with mode \<open>'wb'\<close> (\<open>demo_unity_bundle.py\<close>, \<open>test_unity_integration.py\<close>)
  or collect them in a \<open>bytearray\<close> (\<open>demo_gltf_test.py\<close>). A byte is an 8-bit word, a
  byte string is a list of bytes, and Python's integers are \<open>int\<close>. A call that can raise
  (\<open>struct.error\<close>, \<open>OverflowError\<close>) returns \<open>None\<close> where Python raises.
\<close>

type_synonym byte = "8 word"
type_synonym bytes = "byte list"

text \<open>A bytes literal of printable ASCII characters, such as \<open>b'UnityFS'\<close>.\<close>

definition ascii :: "string \<Rightarrow> bytes" where
  "ascii s = map of_char s"

text \<open>The \<open>n\<close> low-order bytes of \<open>v\<close>, most significant first.\<close>

fun be_bytes :: "nat \<Rightarrow> int \<Rightarrow> bytes" where
  "be_bytes 0 v = []"
| "be_bytes (Suc n) v = be_bytes n (v div 256) @ [of_int (v mod 256)]"

text \<open>
  \<open>struct.pack('>H', v)\<close>, \<open>struct.pack('>I', v)\<close> and \<open>struct.pack('>Q', v)\<close> are
  \<open>struct_pack_be 2 v\<close>, \<open>struct_pack_be 4 v\<close> and \<open>struct_pack_be 8 v\<close>: an unsigned
  big-endian field of the given width, and \<open>struct.error\<close> for a value out of its range.
  \<open>struct.pack('<H', v)\<close> is \<open>struct_pack_le 2 v\<close>, the same bytes in the opposite order.
\<close>

definition struct_pack_be :: "nat \<Rightarrow> int \<Rightarrow> bytes option" where
  "struct_pack_be width v =
     (if 0 \<le> v \<and> v < 2 ^ (8 * width) then Some (be_bytes width v) else None)"

definition struct_pack_le :: "nat \<Rightarrow> int \<Rightarrow> bytes option" where
  "struct_pack_le width v = map_option rev (struct_pack_be width v)"

text \<open>\<open>v.to_bytes(width, 'big')\<close>: \<open>OverflowError\<close> for a negative or too large \<open>v\<close>.\<close>

definition to_bytes_big :: "int \<Rightarrow> nat \<Rightarrow> bytes option" where
  "to_bytes_big v width =
     (if 0 \<le> v \<and> v < 2 ^ (8 * width) then Some (be_bytes width v) else None)"

text \<open>
  A file opened with \<open>open(filename, 'wb')\<close> starts empty and is only appended to; its
  state is its content, and \<open>f.tell()\<close> is the length of what has been written.
\<close>

type_synonym py_file = bytes

definition open_wb :: "string \<Rightarrow> py_file" where
  "open_wb filename = []"

definition file_write :: "py_file \<Rightarrow> bytes \<Rightarrow> py_file" where
  "file_write f b = f @ b"

definition file_tell :: "py_file \<Rightarrow> int" where
  "file_tell f = int (length f)"

text \<open>\<open>b'\x00' * n\<close>\<close>

definition zeros :: "int \<Rightarrow> bytes" where
  "zeros n = replicate (nat n) 0"

section \<open>The bundle fixture generators\<close>

text \<open>
  \<open>create_minimal_unityfs_bundle\<close> of \<open>demo_unity_bundle.py\<close>. The result is the content
  of the file when the \<open>with\<close> block is left.
\<close>

definition create_minimal_unityfs_bundle :: "string \<Rightarrow> py_file option" where
  "create_minimal_unityfs_bundle filename = do {
     let f = open_wb filename;
     let f = file_write f (ascii ''UnityFS'' @ [0]);
     f \<leftarrow> map_option (file_write f) (struct_pack_be 4 7);
     let unity_version = ascii ''2022.3.15f1'' @ [0];
     let f = file_write f unity_version;
     let unity_revision = ascii ''b58023a2fb5c'' @ [0];
     let f = file_write f unity_revision;
     let bundle_size = 256;
     f \<leftarrow> map_option (file_write f) (struct_pack_be 8 bundle_size);
     f \<leftarrow> map_option (file_write f) (struct_pack_be 4 48);
     f \<leftarrow> map_option (file_write f) (struct_pack_be 4 48);
     f \<leftarrow> map_option (file_write f) (struct_pack_be 4 0);
     f \<leftarrow> map_option (file_write f) (struct_pack_be 4 128);
     f \<leftarrow> map_option (file_write f) (struct_pack_be 4 128);
     f \<leftarrow> map_option (file_write f) (struct_pack_be 2 0);
     f \<leftarrow> map_option (file_write f) (struct_pack_be 8 128);
     f \<leftarrow> map_option (file_write f) (struct_pack_be 8 64);
     f \<leftarrow> map_option (file_write f) (struct_pack_be 4 0);
     let name = ascii ''SharedAssets0.assets'' @ [0];
     let f = file_write f name;
     let current_pos = file_tell f;
     let remaining = bundle_size - current_pos;
     let f = (if remaining > 0 then file_write f (zeros remaining) else f);
     Some f
   }"

text \<open>\<open>create_texture_demo_bundle\<close> of \<open>demo_unity_bundle.py\<close>.\<close>

definition create_texture_demo_bundle :: "string \<Rightarrow> py_file option" where
  "create_texture_demo_bundle filename = do {
     let f = open_wb filename;
     let f = file_write f (ascii ''UnityFS2'');
     f \<leftarrow> map_option (file_write f) (struct_pack_be 4 8);
     let f = file_write f (ascii ''2023.1.0f1'' @ [0]);
     let f = file_write f (ascii ''c1b978022a1a'' @ [0]);
     let bundle_size = 512;
     f \<leftarrow> map_option (file_write f) (struct_pack_be 8 bundle_size);
     f \<leftarrow> map_option (file_write f) (struct_pack_be 4 64);
     f \<leftarrow> map_option (file_write f) (struct_pack_be 4 64);
     f \<leftarrow> map_option (file_write f) (struct_pack_be 4 0);
     f \<leftarrow> map_option (file_write f) (struct_pack_be 4 256);
     f \<leftarrow> map_option (file_write f) (struct_pack_be 4 256);
     f \<leftarrow> map_option (file_write f) (struct_pack_be 2 0);
     f \<leftarrow> map_option (file_write f) (struct_pack_be 4 128);
     f \<leftarrow> map_option (file_write f) (struct_pack_be 4 128);
     f \<leftarrow> map_option (file_write f) (struct_pack_be 2 0);
     f \<leftarrow> map_option (file_write f) (struct_pack_be 8 200);
     f \<leftarrow> map_option (file_write f) (struct_pack_be 8 256);
     f \<leftarrow> map_option (file_write f) (struct_pack_be 4 4);
     let f = file_write f (ascii ''MainTexture'' @ [0]);
     f \<leftarrow> map_option (file_write f) (struct_pack_be 8 456);
     f \<leftarrow> map_option (file_write f) (struct_pack_be 8 128);
     f \<leftarrow> map_option (file_write f) (struct_pack_be 4 8);
     let f = file_write f (ascii ''StandardMaterial'' @ [0]);
     let current_pos = file_tell f;
     let remaining = bundle_size - current_pos;
     let f = (if remaining > 0 then file_write f (zeros remaining) else f);
     Some f
   }"

text \<open>\<open>create_test_unity_file\<close> of \<open>test_unity_integration.py\<close>.\<close>

definition create_test_unity_file :: "string \<Rightarrow> py_file option" where
  "create_test_unity_file output_path = do {
     let f = open_wb output_path;
     let f = file_write f (ascii ''UnityFS'' @ [0]);
     let f = file_write f (ascii ''2022.3.15f1'' @ [0]);
     let f = file_write f (ascii ''abcd1234'' @ [0]);
     f \<leftarrow> map_option (file_write f) (to_bytes_big 1024 8);
     f \<leftarrow> map_option (file_write f) (to_bytes_big 100 4);
     f \<leftarrow> map_option (file_write f) (to_bytes_big 100 4);
     f \<leftarrow> map_option (file_write f) (to_bytes_big 0 4);
     let dummy_data = zeros 100;
     let f = file_write f dummy_data;
     let remaining = 1024 - file_tell f;
     let f = (if remaining > 0 then file_write f (zeros remaining) else f);
     Some f
   }"

section \<open>The container layout\<close>

text \<open>
  Modelled from the spec: the container reader of Aegis-Assets, which is not among the
  available sources (only the fixture generators are). The records and the reader below
  follow sections 3, 4.1 to 4.4 and 6 of the specification, and serve to read back what
  the generators wrote. The header of \<open>create_test_unity_file\<close> has no format-version
  field, so in its file the reader's format version and engine version are not what the
  generator meant; the revision string, the sizes, the flags and the length of the header
  are.
\<close>

datatype parse_error =
  UnsupportedFormat | MalformedHeader | TruncatedInput | TruncatedDirectory

record BundleHeader =
  signature :: bytes
  format_version :: int
  engine_version :: bytes
  engine_revision :: bytes
  bundle_size :: int
  compressed_blocks_size :: int
  uncompressed_blocks_size :: int
  flags :: int

record BlockDescriptor =
  uncompressed_size :: int
  compressed_size :: int
  block_flags :: int

record DirectoryEntry =
  entry_offset :: int
  entry_size :: int
  entry_flags :: int
  entry_name :: bytes

record Bundle =
  header :: BundleHeader
  blocks :: "BlockDescriptor list"
  entries :: "DirectoryEntry list"

definition bind_result :: "'e + 'a \<Rightarrow> ('a \<Rightarrow> 'e + 'b) \<Rightarrow> 'e + 'b" where
  "bind_result r k = (case r of Inl e \<Rightarrow> Inl e | Inr x \<Rightarrow> k x)"

text \<open>The value of a big-endian unsigned field.\<close>

definition be_uint :: "bytes \<Rightarrow> int" where
  "be_uint bs = foldl (\<lambda>a b. 256 * a + uint b) 0 bs"

text \<open>
  Modelled from the spec: the signature tokens of the two format families, which the
  specification takes from the fixtures (\<open>b'UnityFS\x00'\<close> and \<open>b'UnityFS2'\<close>), and the
  fixed signature length.
\<close>

definition signature_length :: nat where
  "signature_length = 8"

definition known_signatures :: "bytes list" where
  "known_signatures = [ascii ''UnityFS'' @ [0], ascii ''UnityFS2'']"

text \<open>
  Modelled from the spec: a fixed-width big-endian integer field (section 6), checked
  against the remaining input; \<open>err\<close> is the error of the stage that reads it.
\<close>

definition read_uint :: "parse_error \<Rightarrow> nat \<Rightarrow> bytes \<Rightarrow> parse_error + (int \<times> bytes)" where
  "read_uint err width bs =
     (if width \<le> length bs then Inr (be_uint (take width bs), drop width bs) else Inl err)"

text \<open>
  Modelled from the spec: a null-terminated string, scanned over at most \<open>max_scan\<close>
  bytes and never past the end of the input (section 4.1, step 3). The specification
  gives the bound no value, so it is a parameter.
\<close>

definition read_cstring :: "parse_error \<Rightarrow> nat \<Rightarrow> bytes \<Rightarrow> parse_error + (bytes \<times> bytes)" where
  "read_cstring err max_scan bs =
     (let s = takeWhile (\<lambda>b. b \<noteq> 0) bs
      in if length s < min max_scan (length bs) then Inr (s, drop (Suc (length s)) bs)
         else Inl err)"

text \<open>Modelled from the spec: the signature step of the container reader (section 4.1, step 1).\<close>

definition read_signature :: "bytes \<Rightarrow> parse_error + (bytes \<times> bytes)" where
  "read_signature bs =
     (if length bs < signature_length then Inl TruncatedInput
      else if take signature_length bs \<in> set known_signatures
      then Inr (take signature_length bs, drop signature_length bs)
      else Inl UnsupportedFormat)"

text \<open>
  Modelled from the spec: the container reader (section 4.1, steps 1 to 4), with the byte
  layout of section 6. It returns the header and the input that follows it.
\<close>

definition read_header :: "nat \<Rightarrow> bytes \<Rightarrow> parse_error + (BundleHeader \<times> bytes)" where
  "read_header max_scan bs =
     bind_result (read_signature bs) (\<lambda>(sig, bs).
     bind_result (read_uint TruncatedInput 4 bs) (\<lambda>(ver, bs).
     bind_result (read_cstring MalformedHeader max_scan bs) (\<lambda>(ev, bs).
     bind_result (read_cstring MalformedHeader max_scan bs) (\<lambda>(er, bs).
     bind_result (read_uint TruncatedInput 8 bs) (\<lambda>(total, bs).
     bind_result (read_uint TruncatedInput 4 bs) (\<lambda>(cb, bs).
     bind_result (read_uint TruncatedInput 4 bs) (\<lambda>(ub, bs).
     bind_result (read_uint TruncatedInput 4 bs) (\<lambda>(fl, bs).
       Inr (\<lparr>signature = sig, format_version = ver, engine_version = ev,
              engine_revision = er, bundle_size = total, compressed_blocks_size = cb,
              uncompressed_blocks_size = ub, flags = fl\<rparr>, bs)))))))))"

text \<open>
  Modelled from the spec: the serialisation of a header in the layout of section 6, the
  inverse that the round-trip property of section 8 speaks of.
\<close>

definition write_header :: "BundleHeader \<Rightarrow> bytes" where
  "write_header h =
     signature h @ be_bytes 4 (format_version h)
     @ engine_version h @ [0] @ engine_revision h @ [0]
     @ be_bytes 8 (bundle_size h)
     @ be_bytes 4 (compressed_blocks_size h)
     @ be_bytes 4 (uncompressed_blocks_size h)
     @ be_bytes 4 (flags h)"

text \<open>
  Modelled from the spec: the block table (sections 4.2 and 6), one descriptor of
  uncompressed size, compressed size and flags per block. The layout has no count field,
  so the number of blocks is a parameter.
\<close>

fun read_blocks :: "nat \<Rightarrow> bytes \<Rightarrow> parse_error + (BlockDescriptor list \<times> bytes)" where
  "read_blocks 0 bs = Inr ([], bs)"
| "read_blocks (Suc n) bs =
     bind_result (read_uint TruncatedInput 4 bs) (\<lambda>(us, bs).
     bind_result (read_uint TruncatedInput 4 bs) (\<lambda>(cs, bs).
     bind_result (read_uint TruncatedInput 2 bs) (\<lambda>(fl, bs).
     bind_result (read_blocks n bs) (\<lambda>(ds, bs).
       Inr (\<lparr>uncompressed_size = us, compressed_size = cs, block_flags = fl\<rparr> # ds, bs)))))"

text \<open>
  Modelled from the spec: the object directory (sections 4.3 and 6), entries of offset,
  size, flags and null-terminated name, in order; \<open>TruncatedDirectory\<close> when the input
  ends before the declared count is reached.
\<close>

fun read_directory :: "nat \<Rightarrow> nat \<Rightarrow> bytes \<Rightarrow> parse_error + (DirectoryEntry list \<times> bytes)" where
  "read_directory max_scan 0 bs = Inr ([], bs)"
| "read_directory max_scan (Suc n) bs =
     bind_result (read_uint TruncatedDirectory 8 bs) (\<lambda>(off, bs).
     bind_result (read_uint TruncatedDirectory 8 bs) (\<lambda>(sz, bs).
     bind_result (read_uint TruncatedDirectory 4 bs) (\<lambda>(fl, bs).
     bind_result (read_cstring TruncatedDirectory max_scan bs) (\<lambda>(nm, bs).
     bind_result (read_directory max_scan n bs) (\<lambda>(es, bs).
       Inr (\<lparr>entry_offset = off, entry_size = sz, entry_flags = fl, entry_name = nm\<rparr> # es,
            bs))))))"

text \<open>
  Modelled from the spec: header, block table and directory read in sequence, each from
  the position the previous one left (section 5).
\<close>

definition read_bundle :: "nat \<Rightarrow> nat \<Rightarrow> nat \<Rightarrow> bytes \<Rightarrow> parse_error + Bundle" where
  "read_bundle max_scan n_blocks n_entries bs =
     bind_result (read_header max_scan bs) (\<lambda>(h, bs).
     bind_result (read_blocks n_blocks bs) (\<lambda>(ds, bs).
     bind_result (read_directory max_scan n_entries bs) (\<lambda>(es, bs).
       Inr \<lparr>header = h, blocks = ds, entries = es\<rparr>)))"

text \<open>
  Modelled from the spec: the length of the virtual address space is the sum of the
  uncompressed sizes of the blocks (section 3), and an entry is in bounds when its offset
  plus its size does not exceed it (section 4.4).
\<close>

definition address_space_length :: "BlockDescriptor list \<Rightarrow> int" where
  "address_space_length ds = sum_list (map uncompressed_size ds)"

definition entry_in_bounds :: "int \<Rightarrow> DirectoryEntry \<Rightarrow> bool" where
  "entry_in_bounds space e = (entry_offset e + entry_size e \<le> space)"

section \<open>Single-precision floats\<close>

text \<open>
  The floats of \<open>demo_gltf_test.py\<close> are literals, and every finite Python float is a
  rational number, so a float is a \<open>rat\<close> here (there is no negative zero among the
  literals, and none in \<open>rat\<close>). \<open>struct.pack('<f', x)\<close> converts \<open>x\<close> to IEEE 754
  binary32, rounding to nearest with ties to even, raises \<open>OverflowError\<close> when the
  result is not finite, and stores the 32 bits least significant byte first.
\<close>

definition round_half_even :: "rat \<Rightarrow> int" where
  "round_half_even x =
     (let n = \<lfloor>x\<rfloor>; d = x - of_int n
      in if d < 1 / 2 then n else if 1 / 2 < d then n + 1 else if even n then n else n + 1)"

text \<open>
  With \<open>a\<close> the magnitude in units of \<open>1 / 2 ^ 149\<close> (the smallest subnormal),
  \<open>f32_exponent k a\<close> is the largest biased exponent \<open>e \<le> k\<close> with \<open>2 ^ (e + 22) \<le> a\<close>,
  and 0 (subnormal) when there is none.
\<close>

fun f32_exponent :: "nat \<Rightarrow> rat \<Rightarrow> nat" where
  "f32_exponent 0 a = 0"
| "f32_exponent (Suc k) a = (if 2 ^ (k + 23) \<le> a then Suc k else f32_exponent k a)"

definition f32_shift :: "nat \<Rightarrow> nat" where
  "f32_shift e = (if e = 0 then 0 else e - 1)"

text \<open>
  The exponent and fraction fields together, for a magnitude \<open>a\<close> in the same units: the
  significand is \<open>a\<close> scaled by the exponent and rounded (a carry out of the fraction
  moves into the exponent field by the addition).
\<close>

definition f32_magnitude :: "rat \<Rightarrow> int" where
  "f32_magnitude a =
     int (f32_shift (f32_exponent 254 a)) * 2 ^ 23
     + round_half_even (a / 2 ^ f32_shift (f32_exponent 254 a))"

definition f32_bits :: "rat \<Rightarrow> int option" where
  "f32_bits x =
     (if f32_magnitude (\<bar>x\<bar> * 2 ^ 149) < 255 * 2 ^ 23
      then Some ((if x < 0 then 2 ^ 31 else 0) + f32_magnitude (\<bar>x\<bar> * 2 ^ 149))
      else None)"

definition struct_pack_le_f :: "rat \<Rightarrow> bytes option" where
  "struct_pack_le_f x = map_option (\<lambda>bits. rev (be_bytes 4 bits)) (f32_bits x)"

text \<open>
  Reading back, as \<open>struct.unpack\<close> does: the value of a little-endian unsigned field,
  and the rational value of 32 bits of binary32 (\<open>None\<close> for an infinity or a NaN).
\<close>

definition le_uint :: "bytes \<Rightarrow> int" where
  "le_uint bs = be_uint (rev bs)"

definition f32_value :: "int \<Rightarrow> rat option" where
  "f32_value bits =
     (let s = bits div 2 ^ 31; e = (bits div 2 ^ 23) mod 256; m = bits mod 2 ^ 23;
          significand = (if e = 0 then m else (2 ^ 23 + m) * 2 ^ (nat e - 1))
      in if e = 255 then None
         else Some ((if s = 1 then - 1 else 1) * of_int significand / 2 ^ 149))"

section \<open>The glTF cube fixture\<close>

text \<open>The JSON document of \<open>create_cube_mesh_gltf\<close>: an object is a record, keyed by its keys.\<close>

record Asset =
  version :: string
  generator :: string

record Scene =
  scene_name :: string
  scene_nodes :: "int list"

record Node =
  node_name :: string
  node_mesh :: int

record Primitive =
  attributes :: "(string \<times> int) list"
  prim_indices :: int
  mode :: int

record Mesh =
  mesh_name :: string
  primitives :: "Primitive list"

record BufferView =
  bv_buffer :: int
  bv_byteOffset :: int
  bv_byteLength :: int
  bv_target :: int

record Buffer =
  buf_byteLength :: int
  buf_uri :: string

record Accessor =
  acc_bufferView :: int
  acc_byteOffset :: int
  acc_componentType :: int
  acc_count :: int
  acc_type :: string
  acc_min :: "rat list option"
  acc_max :: "rat list option"

record GLTF =
  asset :: Asset
  scene :: int
  scenes :: "Scene list"
  nodes :: "Node list"
  meshes :: "Mesh list"
  bufferViews :: "BufferView list"
  buffers :: "Buffer list"
  accessors :: "Accessor list"

text \<open>The four literal lists of \<open>create_cube_mesh_gltf\<close>.\<close>

definition positions :: "rat list" where
  "positions =
     [-0.5, -0.5,  0.5,
       0.5, -0.5,  0.5,
       0.5,  0.5,  0.5,
      -0.5,  0.5,  0.5,
      -0.5, -0.5, -0.5,
       0.5, -0.5, -0.5,
       0.5,  0.5, -0.5,
      -0.5,  0.5, -0.5]"

definition normals :: "rat list" where
  "normals =
     [0.0, 0.0, 1.0,
      0.0, 0.0, -1.0,
      -1.0, 0.0, 0.0,
      1.0, 0.0, 0.0,
      0.0, 1.0, 0.0,
      0.0, -1.0, 0.0]"

definition uvs :: "rat list" where
  "uvs =
     [0.0, 0.0, 1.0, 0.0, 1.0, 1.0, 0.0, 1.0,
      0.0, 0.0, 1.0, 0.0, 1.0, 1.0, 0.0, 1.0,
      0.0, 0.0, 1.0, 0.0, 1.0, 1.0, 0.0, 1.0]"

definition indices :: "int list" where
  "indices =
     [0, 1, 2,  0, 2, 3,
      5, 4, 7,  5, 7, 6,
      4, 0, 3,  4, 3, 7,
      1, 5, 6,  1, 6, 2,
      3, 2, 6,  3, 6, 7,
      4, 5, 1,  4, 1, 0]"

text \<open>\<open>for x in xs: binary_data.extend(pack(x))\<close>\<close>

fun extend_each :: "('a \<Rightarrow> bytes option) \<Rightarrow> 'a list \<Rightarrow> bytes \<Rightarrow> bytes option" where
  "extend_each pack [] binary_data = Some binary_data"
| "extend_each pack (x # xs) binary_data =
     Option.bind (pack x) (\<lambda>b. extend_each pack xs (binary_data @ b))"

definition create_cube_mesh_gltf :: "(GLTF \<times> bytes \<times> int list) option" where
  "create_cube_mesh_gltf = do {
     let binary_data = [];
     binary_data \<leftarrow> extend_each struct_pack_le_f positions binary_data;
     binary_data \<leftarrow> extend_each struct_pack_le_f normals binary_data;
     binary_data \<leftarrow> extend_each struct_pack_le_f uvs binary_data;
     binary_data \<leftarrow> extend_each (struct_pack_le 2) indices binary_data;
     let gltf = \<lparr>
       asset = \<lparr>version = ''2.0'', generator = ''Aegis-Assets glTF Demo''\<rparr>,
       scene = 0,
       scenes = [\<lparr>scene_name = ''Scene'', scene_nodes = [0]\<rparr>],
       nodes = [\<lparr>node_name = ''Cube'', node_mesh = 0\<rparr>],
       meshes = [\<lparr>mesh_name = ''Cube'', primitives = [\<lparr>
         attributes = [(''POSITION'', 0), (''NORMAL'', 1), (''TEXCOORD_0'', 2)],
         prim_indices = 3,
         mode = 4\<rparr>]\<rparr>],
       bufferViews = [\<lparr>
         bv_buffer = 0,
         bv_byteOffset = 0,
         bv_byteLength = int (length binary_data),
         bv_target = 34962\<rparr>],
       buffers = [\<lparr>
         buf_byteLength = int (length binary_data),
         buf_uri = ''cube.bin''\<rparr>],
       accessors = [
         \<lparr>acc_bufferView = 0,
          acc_byteOffset = 0,
          acc_componentType = 5126,
          acc_count = 8,
          acc_type = ''VEC3'',
          acc_min = Some [-0.5, -0.5, -0.5],
          acc_max = Some [0.5, 0.5, 0.5]\<rparr>,
         \<lparr>acc_bufferView = 0,
          acc_byteOffset = 8 * 3 * 4,
          acc_componentType = 5126,
          acc_count = 8,
          acc_type = ''VEC3'',
          acc_min = None,
          acc_max = None\<rparr>,
         \<lparr>acc_bufferView = 0,
          acc_byteOffset = 8 * 3 * 4 + 8 * 3 * 4,
          acc_componentType = 5126,
          acc_count = 8,
          acc_type = ''VEC2'',
          acc_min = None,
          acc_max = None\<rparr>,
         \<lparr>acc_bufferView = 0,
          acc_byteOffset = 8 * 3 * 4 + 8 * 3 * 4 + 8 * 2 * 4,
          acc_componentType = 5123,
          acc_count = 36,
          acc_type = ''SCALAR'',
          acc_min = None,
          acc_max = None\<rparr>]\<rparr>;
     Some (gltf, binary_data, indices)
   }"

section \<open>Reading a buffer through an accessor\<close>

text \<open>
  Modelled from the spec: the description references each attribute stream by byte
  offset, component type and count (sections 4.6 and 6), and a consumer of the two
  exported files, which is not among the sources, takes \<open>count\<close> elements at
  \<open>byteOffset\<close> of the accessor's buffer view. The component types and element types
  are the glTF 2.0 ones that the comments of the source name (5126 is FLOAT, 4 bytes;
  5123 is UNSIGNED_SHORT, 2 bytes; a VEC3 is 3 components).
\<close>

definition component_size :: "int \<Rightarrow> nat option" where
  "component_size c =
     (if c = 5126 then Some 4 else if c = 5125 then Some 4 else if c = 5123 then Some 2
      else None)"

definition type_components :: "string \<Rightarrow> nat option" where
  "type_components t =
     (if t = ''SCALAR'' then Some 1 else if t = ''VEC2'' then Some 2
      else if t = ''VEC3'' then Some 3 else if t = ''VEC4'' then Some 4 else None)"

text \<open>\<open>xs[i]\<close> for an index of a JSON document, which is never negative.\<close>

definition list_get :: "'a list \<Rightarrow> int \<Rightarrow> 'a option" where
  "list_get xs i = (if 0 \<le> i \<and> nat i < length xs then Some (xs ! nat i) else None)"

definition accessor_bytes :: "GLTF \<Rightarrow> Accessor \<Rightarrow> bytes \<Rightarrow> bytes option" where
  "accessor_bytes g a bd = do {
     v \<leftarrow> list_get (bufferViews g) (acc_bufferView a);
     sz \<leftarrow> component_size (acc_componentType a);
     n \<leftarrow> type_components (acc_type a);
     let start = bv_byteOffset v + acc_byteOffset a;
     let len = acc_count a * int (sz * n);
     if 0 \<le> start \<and> 0 \<le> len \<and> acc_byteOffset a + len \<le> bv_byteLength v
        \<and> start + len \<le> int (length bd)
     then Some (take (nat len) (drop (nat start) bd))
     else None
   }"

text \<open>The accessor of a vertex attribute, and of the indices, of the first primitive.\<close>

definition first_primitive :: "GLTF \<Rightarrow> Primitive option" where
  "first_primitive g =
     (case meshes g of [] \<Rightarrow> None
      | m # _ \<Rightarrow> (case primitives m of [] \<Rightarrow> None | p # _ \<Rightarrow> Some p))"

definition attribute_accessor :: "GLTF \<Rightarrow> string \<Rightarrow> Accessor option" where
  "attribute_accessor g name = do {
     p \<leftarrow> first_primitive g;
     i \<leftarrow> map_of (attributes p) name;
     list_get (accessors g) i
   }"

definition indices_accessor :: "GLTF \<Rightarrow> Accessor option" where
  "indices_accessor g = do {
     p \<leftarrow> first_primitive g;
     list_get (accessors g) (prim_indices p)
   }"

text \<open>
  \<open>struct.unpack\<close> of a whole stream of little-endian floats, and of little-endian
  unsigned 16-bit integers; \<open>None\<close> when the length is not a multiple of the item size
  or a float is not finite.
\<close>

fun unpack_le_f :: "bytes \<Rightarrow> rat list option" where
  "unpack_le_f [] = Some []"
| "unpack_le_f (a # b # c # d # bs) =
     (case (f32_value (le_uint [a, b, c, d]), unpack_le_f bs) of
        (Some v, Some vs) \<Rightarrow> Some (v # vs)
      | _ \<Rightarrow> None)"
| "unpack_le_f _ = None"

fun unpack_le_H :: "bytes \<Rightarrow> int list option" where
  "unpack_le_H [] = Some []"
| "unpack_le_H (a # b # bs) = map_option ((#) (le_uint [a, b])) (unpack_le_H bs)"
| "unpack_le_H _ = None"

text \<open>A flat list as vectors of three components, and a bound over all the vectors.\<close>

fun vec3s :: "'a list \<Rightarrow> 'a list list" where
  "vec3s (x # y # z # r) = [x, y, z] # vec3s r"
| "vec3s _ = []"

definition componentwise :: "(rat \<Rightarrow> rat \<Rightarrow> rat) \<Rightarrow> rat list list \<Rightarrow> rat list option" where
  "componentwise f vs = (case vs of [] \<Rightarrow> None | v # r \<Rightarrow> Some (foldl (map2 f) v r))"

section \<open>Properties of the container reader\<close>

lemma bind_result_Inr:
  "bind_result r k = Inr y \<longleftrightarrow> (\<exists>x. r = Inr x \<and> k x = Inr y)"
  by (cases r) (simp_all add: bind_result_def)

text \<open>A larger scan bound accepts whatever a smaller one accepts, with the same result.\<close>

lemma read_cstring_mono:
  "read_cstring e m bs = Inr r \<Longrightarrow> m \<le> m' \<Longrightarrow> read_cstring e m' bs = Inr r"
  by (auto simp: read_cstring_def Let_def split: if_splits)

lemma read_header_mono:
  assumes "read_header m bs = Inr r" and "m \<le> m'"
  shows "read_header m' bs = Inr r"
  using assms unfolding read_header_def
  by (fastforce simp: bind_result_Inr dest: read_cstring_mono)

lemma read_directory_mono:
  "read_directory m n bs = Inr r \<Longrightarrow> m \<le> m' \<Longrightarrow> read_directory m' n bs = Inr r"
proof (induction n arbitrary: bs r)
  case 0
  then show ?case by simp
next
  case (Suc n)
  then show ?case
    by (fastforce simp: bind_result_Inr dest: read_cstring_mono)
qed

lemma read_bundle_mono:
  assumes "read_bundle m nb ne bs = Inr r" and "m \<le> m'"
  shows "read_bundle m' nb ne bs = Inr r"
proof -
  from assms(1) obtain h b1 ds b2 es b3 where
    h: "read_header m bs = Inr (h, b1)" and
    ds: "read_blocks nb b1 = Inr (ds, b2)" and
    es: "read_directory m ne b2 = Inr (es, b3)" and
    r: "r = \<lparr>header = h, blocks = ds, entries = es\<rparr>"
    by (auto simp: read_bundle_def bind_result_Inr)
  from h es assms(2) have "read_header m' bs = Inr (h, b1)"
    and "read_directory m' ne b2 = Inr (es, b3)"
    by (auto dest: read_header_mono read_directory_mono)
  with ds r show ?thesis
    by (simp add: read_bundle_def bind_result_def)
qed

text \<open>
  Writing back what was read gives the bytes that were read: for each kind of field, and
  so for the whole header.
\<close>

lemma be_uint_snoc: "be_uint (bs @ [b]) = 256 * be_uint bs + uint b"
  by (simp add: be_uint_def)

lemma be_bytes_be_uint: "be_bytes (length bs) (be_uint bs) = bs"
proof (induction bs rule: rev_induct)
  case Nil
  then show ?case by simp
next
  case (snoc b bs)
  have "uint b < 2 ^ LENGTH(8)" by (rule uint_bounded)
  then have "0 \<le> uint b" and "uint b < 256" by simp_all
  then show ?case using snoc by (simp add: be_uint_snoc)
qed

lemma read_uint_roundtrip:
  "read_uint e w bs = Inr (v, r) \<Longrightarrow> be_bytes w v @ r = bs"
  using be_bytes_be_uint [of "take w bs"]
  by (auto simp: read_uint_def min_def split: if_splits)

lemma read_cstring_roundtrip:
  assumes "read_cstring e m bs = Inr (s, r)"
  shows "s @ [0] @ r = bs"
proof -
  let ?P = "\<lambda>b::byte. b \<noteq> 0"
  from assms have s: "s = takeWhile ?P bs" and r: "r = drop (Suc (length s)) bs"
    and len: "length s < length bs"
    by (auto simp: read_cstring_def Let_def split: if_splits)
  from len s have ne: "dropWhile ?P bs \<noteq> []"
    by (metis append_Nil2 nat_less_le takeWhile_dropWhile_id)
  then obtain x xs where d: "dropWhile ?P bs = x # xs"
    by (cases "dropWhile ?P bs") auto
  with ne have "\<not> ?P x"
    using hd_dropWhile [of ?P bs] by (metis list.sel(1))
  then have x: "x = 0" by simp
  have bs: "bs = s @ x # xs"
    using takeWhile_dropWhile_id [of ?P bs] s d by simp
  then have "r = xs" using r by simp
  with bs x show ?thesis by simp
qed

lemma read_signature_roundtrip:
  "read_signature bs = Inr (s, r) \<Longrightarrow> s @ r = bs"
  by (auto simp: read_signature_def split: if_splits)

lemma read_header_write_header:
  assumes "read_header m bs = Inr (h, rest)"
  shows "write_header h @ rest = bs"
  using assms unfolding read_header_def write_header_def
  by (auto simp: bind_result_Inr
      dest!: read_uint_roundtrip read_cstring_roundtrip read_signature_roundtrip)

section \<open>What the bundle generators write\<close>

text \<open>
  The three generators raise nothing, and the reader accepts their files. These are the
  header, the block descriptors and the directory entries it finds, with the smallest
  scan bounds that reach the terminator of every string.
\<close>

lemma minimal_bundle_eval:
  "case create_minimal_unityfs_bundle filename of None \<Rightarrow> False
   | Some f \<Rightarrow>
       length f = 256 \<and>
       read_header 13 f =
         Inr (\<lparr>signature = ascii ''UnityFS'' @ [0], format_version = 7,
               engine_version = ascii ''2022.3.15f1'',
               engine_revision = ascii ''b58023a2fb5c'',
               bundle_size = 256, compressed_blocks_size = 48,
               uncompressed_blocks_size = 48, flags = 0\<rparr>, drop 57 f) \<and>
       read_bundle 21 1 1 f =
         Inr \<lparr>header = \<lparr>signature = ascii ''UnityFS'' @ [0], format_version = 7,
               engine_version = ascii ''2022.3.15f1'',
               engine_revision = ascii ''b58023a2fb5c'',
               bundle_size = 256, compressed_blocks_size = 48,
               uncompressed_blocks_size = 48, flags = 0\<rparr>,
             blocks = [\<lparr>uncompressed_size = 128, compressed_size = 128, block_flags = 0\<rparr>],
             entries = [\<lparr>entry_offset = 128, entry_size = 64, entry_flags = 0,
                         entry_name = ascii ''SharedAssets0.assets''\<rparr>]\<rparr>"
  by code_simp

lemma texture_bundle_eval:
  "case create_texture_demo_bundle filename of None \<Rightarrow> False
   | Some f \<Rightarrow>
       length f = 512 \<and>
       read_header 13 f =
         Inr (\<lparr>signature = ascii ''UnityFS2'', format_version = 8,
               engine_version = ascii ''2023.1.0f1'',
               engine_revision = ascii ''c1b978022a1a'',
               bundle_size = 512, compressed_blocks_size = 64,
               uncompressed_blocks_size = 64, flags = 0\<rparr>, drop 56 f) \<and>
       read_bundle 17 2 2 f =
         Inr \<lparr>header = \<lparr>signature = ascii ''UnityFS2'', format_version = 8,
               engine_version = ascii ''2023.1.0f1'',
               engine_revision = ascii ''c1b978022a1a'',
               bundle_size = 512, compressed_blocks_size = 64,
               uncompressed_blocks_size = 64, flags = 0\<rparr>,
             blocks = [\<lparr>uncompressed_size = 256, compressed_size = 256, block_flags = 0\<rparr>,
                       \<lparr>uncompressed_size = 128, compressed_size = 128, block_flags = 0\<rparr>],
             entries = [\<lparr>entry_offset = 200, entry_size = 256, entry_flags = 4,
                         entry_name = ascii ''MainTexture''\<rparr>,
                        \<lparr>entry_offset = 456, entry_size = 128, entry_flags = 8,
                         entry_name = ascii ''StandardMaterial''\<rparr>]\<rparr>"
  by code_simp

lemma test_file_eval:
  "case create_test_unity_file output_path of None \<Rightarrow> False
   | Some f \<Rightarrow>
       length f = 1024 \<and>
       take 20 f = ascii ''UnityFS'' @ [0] @ ascii ''2022.3.15f1'' @ [0] \<and>
       read_header 9 f =
         Inr (\<lparr>signature = ascii ''UnityFS'' @ [0], format_version = 842019378,
               engine_version = ascii ''.3.15f1'', engine_revision = ascii ''abcd1234'',
               bundle_size = 1024, compressed_blocks_size = 100,
               uncompressed_blocks_size = 100, flags = 0\<rparr>, drop 49 f)"
  by code_simp

lemma read_header_at:
  assumes "read_header m f = Inr (h, rest)" and "m \<le> m'"
  shows "read_header m' f = Inr (h, rest)" and "write_header h @ rest = f"
  using assms by (auto dest: read_header_mono read_header_write_header)

lemma header_length_from_rest:
  assumes "write_header h @ drop n f = f" and "n \<le> length f"
  shows "length (write_header h) = n" and "write_header h = take n f"
proof -
  from assms(1) have "length (write_header h) + length (drop n f) = length f"
    by (metis length_append)
  with assms(2) show len: "length (write_header h) = n" by simp
  from assms(1) have "take (length (write_header h)) f = write_header h"
    by (metis append_eq_conv_conj)
  with len show "write_header h = take n f" by simp
qed

lemma minimal_header:
  assumes "12 < max_scan"
  obtains f h where "create_minimal_unityfs_bundle filename = Some f"
    and "length f = 256"
    and "read_header max_scan f = Inr (h, drop 57 f)"
    and "write_header h @ drop 57 f = f"
    and "bundle_size h = 256" and "flags h = 0"
    and "compressed_blocks_size h = 48" and "uncompressed_blocks_size h = 48"
proof -
  from minimal_bundle_eval [of filename] obtain f h where
    f: "create_minimal_unityfs_bundle filename = Some f" "length f = 256"
    and h: "read_header 13 f = Inr (h, drop 57 f)"
    and v: "bundle_size h = 256" "flags h = 0"
      "compressed_blocks_size h = 48" "uncompressed_blocks_size h = 48"
    by (auto split: option.splits)
  from assms have "13 \<le> max_scan" by simp
  from read_header_at [OF h this] f v that show ?thesis by blast
qed

lemma texture_header:
  assumes "12 < max_scan"
  obtains f h where "create_texture_demo_bundle filename = Some f"
    and "length f = 512"
    and "read_header max_scan f = Inr (h, drop 56 f)"
    and "write_header h @ drop 56 f = f"
    and "bundle_size h = 512" and "flags h = 0"
    and "compressed_blocks_size h = 64" and "uncompressed_blocks_size h = 64"
proof -
  from texture_bundle_eval [of filename] obtain f h where
    f: "create_texture_demo_bundle filename = Some f" "length f = 512"
    and h: "read_header 13 f = Inr (h, drop 56 f)"
    and v: "bundle_size h = 512" "flags h = 0"
      "compressed_blocks_size h = 64" "uncompressed_blocks_size h = 64"
    by (auto split: option.splits)
  from assms have "13 \<le> max_scan" by simp
  from read_header_at [OF h this] f v that show ?thesis by blast
qed

lemma test_file_header:
  assumes "8 < max_scan"
  obtains f h where "create_test_unity_file output_path = Some f"
    and "length f = 1024"
    and "take 20 f = ascii ''UnityFS'' @ [0] @ ascii ''2022.3.15f1'' @ [0]"
    and "read_header max_scan f = Inr (h, drop 49 f)"
    and "write_header h @ drop 49 f = f"
    and "format_version h = 842019378" and "engine_version h = ascii ''.3.15f1''"
    and "engine_revision h = ascii ''abcd1234''"
    and "bundle_size h = 1024" and "flags h = 0"
    and "compressed_blocks_size h = 100" and "uncompressed_blocks_size h = 100"
proof -
  from test_file_eval [of output_path] obtain f h where
    f: "create_test_unity_file output_path = Some f" "length f = 1024"
      "take 20 f = ascii ''UnityFS'' @ [0] @ ascii ''2022.3.15f1'' @ [0]"
    and h: "read_header 9 f = Inr (h, drop 49 f)"
    and v: "format_version h = 842019378" "engine_version h = ascii ''.3.15f1''"
      "engine_revision h = ascii ''abcd1234''"
      "bundle_size h = 1024" "flags h = 0"
      "compressed_blocks_size h = 100" "uncompressed_blocks_size h = 100"
    by (auto split: option.splits)
  from assms have "9 \<le> max_scan" by simp
  from read_header_at [OF h this] f v that show ?thesis by blast
qed

lemma minimal_bundle:
  assumes "20 < max_scan"
  obtains f b where "create_minimal_unityfs_bundle filename = Some f"
    and "read_bundle max_scan 1 1 f = Inr b"
    and "flags (header b) = 0"
    and "compressed_blocks_size (header b) = 48"
    and "uncompressed_blocks_size (header b) = 48"
    and "blocks b = [\<lparr>uncompressed_size = 128, compressed_size = 128, block_flags = 0\<rparr>]"
    and "entries b = [\<lparr>entry_offset = 128, entry_size = 64, entry_flags = 0,
                        entry_name = ascii ''SharedAssets0.assets''\<rparr>]"
proof -
  from minimal_bundle_eval [of filename] obtain f b where
    f: "create_minimal_unityfs_bundle filename = Some f"
    and b: "read_bundle 21 1 1 f = Inr b"
    and v: "flags (header b) = 0" "compressed_blocks_size (header b) = 48"
      "uncompressed_blocks_size (header b) = 48"
      "blocks b = [\<lparr>uncompressed_size = 128, compressed_size = 128, block_flags = 0\<rparr>]"
      "entries b = [\<lparr>entry_offset = 128, entry_size = 64, entry_flags = 0,
                      entry_name = ascii ''SharedAssets0.assets''\<rparr>]"
    by (auto split: option.splits)
  from assms have "21 \<le> max_scan" by simp
  from read_bundle_mono [OF b this] f v that show ?thesis by blast
qed

lemma texture_bundle:
  assumes "20 < max_scan"
  obtains f b where "create_texture_demo_bundle filename = Some f"
    and "read_bundle max_scan 2 2 f = Inr b"
    and "flags (header b) = 0"
    and "compressed_blocks_size (header b) = 64"
    and "uncompressed_blocks_size (header b) = 64"
    and "blocks b = [\<lparr>uncompressed_size = 256, compressed_size = 256, block_flags = 0\<rparr>,
                     \<lparr>uncompressed_size = 128, compressed_size = 128, block_flags = 0\<rparr>]"
    and "entries b = [\<lparr>entry_offset = 200, entry_size = 256, entry_flags = 4,
                        entry_name = ascii ''MainTexture''\<rparr>,
                      \<lparr>entry_offset = 456, entry_size = 128, entry_flags = 8,
                        entry_name = ascii ''StandardMaterial''\<rparr>]"
proof -
  from texture_bundle_eval [of filename] obtain f b where
    f: "create_texture_demo_bundle filename = Some f"
    and b: "read_bundle 17 2 2 f = Inr b"
    and v: "flags (header b) = 0" "compressed_blocks_size (header b) = 64"
      "uncompressed_blocks_size (header b) = 64"
      "blocks b = [\<lparr>uncompressed_size = 256, compressed_size = 256, block_flags = 0\<rparr>,
                   \<lparr>uncompressed_size = 128, compressed_size = 128, block_flags = 0\<rparr>]"
      "entries b = [\<lparr>entry_offset = 200, entry_size = 256, entry_flags = 4,
                      entry_name = ascii ''MainTexture''\<rparr>,
                    \<lparr>entry_offset = 456, entry_size = 128, entry_flags = 8,
                      entry_name = ascii ''StandardMaterial''\<rparr>]"
    by (auto split: option.splits)
  from assms have "17 \<le> max_scan" by simp
  from read_bundle_mono [OF b this] f v that show ?thesis by blast
qed

text \<open>
  The two generators of \<open>demo_unity_bundle.py\<close> follow the layout field by field: the
  reader finds the signature, the format version, the two strings, the bundle size, the
  two block-table sizes and the flags that they wrote.
\<close>

lemma demo_bundle_headers_follow_layout:
  assumes "12 < max_scan"
  shows "(\<exists>f. create_minimal_unityfs_bundle filename = Some f
            \<and> read_header max_scan f =
                Inr (\<lparr>signature = ascii ''UnityFS'' @ [0], format_version = 7,
                      engine_version = ascii ''2022.3.15f1'',
                      engine_revision = ascii ''b58023a2fb5c'',
                      bundle_size = 256, compressed_blocks_size = 48,
                      uncompressed_blocks_size = 48, flags = 0\<rparr>, drop 57 f))
       \<and> (\<exists>f. create_texture_demo_bundle filename' = Some f
            \<and> read_header max_scan f =
                Inr (\<lparr>signature = ascii ''UnityFS2'', format_version = 8,
                      engine_version = ascii ''2023.1.0f1'',
                      engine_revision = ascii ''c1b978022a1a'',
                      bundle_size = 512, compressed_blocks_size = 64,
                      uncompressed_blocks_size = 64, flags = 0\<rparr>, drop 56 f))"
proof -
  from assms have m: "13 \<le> max_scan" by simp
  from minimal_bundle_eval [of filename] obtain f where
    "create_minimal_unityfs_bundle filename = Some f"
    "read_header 13 f =
       Inr (\<lparr>signature = ascii ''UnityFS'' @ [0], format_version = 7,
             engine_version = ascii ''2022.3.15f1'',
             engine_revision = ascii ''b58023a2fb5c'',
             bundle_size = 256, compressed_blocks_size = 48,
             uncompressed_blocks_size = 48, flags = 0\<rparr>, drop 57 f)"
    by (auto split: option.splits)
  moreover
  from texture_bundle_eval [of filename'] obtain f' where
    "create_texture_demo_bundle filename' = Some f'"
    "read_header 13 f' =
       Inr (\<lparr>signature = ascii ''UnityFS2'', format_version = 8,
             engine_version = ascii ''2023.1.0f1'',
             engine_revision = ascii ''c1b978022a1a'',
             bundle_size = 512, compressed_blocks_size = 64,
             uncompressed_blocks_size = 64, flags = 0\<rparr>, drop 56 f')"
    by (auto split: option.splits)
  ultimately show ?thesis
    using m by (blast dest: read_header_mono)
qed

section \<open>Claims about the bundle fixtures\<close>

text \<open>
  C2, as the code has it: no directory entry that a bundle generator writes fits in the
  virtual address space of its bundle. In the file of \<open>create_minimal_unityfs_bundle\<close>
  the block descriptors give 128 bytes and the one entry ends at 128 + 64 = 192; in the
  file of \<open>create_texture_demo_bundle\<close> they give 256 + 128 = 384 bytes and the two
  entries end at 200 + 256 = 456 and at 456 + 128 = 584. The claim that offset plus size
  never exceeds the address space fails for all three entries.
\<close>

theorem directory_entries_beyond_address_space:
  assumes "20 < max_scan"
  shows "(\<exists>f b. create_minimal_unityfs_bundle filename = Some f
            \<and> read_bundle max_scan 1 1 f = Inr b
            \<and> address_space_length (blocks b) = 128
            \<and> map (\<lambda>e. entry_offset e + entry_size e) (entries b) = [192]
            \<and> filter (entry_in_bounds (address_space_length (blocks b))) (entries b) = [])
       \<and> (\<exists>f b. create_texture_demo_bundle filename' = Some f
            \<and> read_bundle max_scan 2 2 f = Inr b
            \<and> address_space_length (blocks b) = 384
            \<and> map (\<lambda>e. entry_offset e + entry_size e) (entries b) = [456, 584]
            \<and> filter (entry_in_bounds (address_space_length (blocks b))) (entries b) = [])"
proof
  from assms minimal_bundle [of max_scan filename] obtain f b where
    "create_minimal_unityfs_bundle filename = Some f"
    "read_bundle max_scan 1 1 f = Inr b"
    "blocks b = [\<lparr>uncompressed_size = 128, compressed_size = 128, block_flags = 0\<rparr>]"
    "entries b = [\<lparr>entry_offset = 128, entry_size = 64, entry_flags = 0,
                    entry_name = ascii ''SharedAssets0.assets''\<rparr>]"
    by metis
  then show "\<exists>f b. create_minimal_unityfs_bundle filename = Some f
      \<and> read_bundle max_scan 1 1 f = Inr b
      \<and> address_space_length (blocks b) = 128
      \<and> map (\<lambda>e. entry_offset e + entry_size e) (entries b) = [192]
      \<and> filter (entry_in_bounds (address_space_length (blocks b))) (entries b) = []"
    by (simp add: address_space_length_def entry_in_bounds_def)
next
  from assms texture_bundle [of max_scan filename'] obtain f b where
    "create_texture_demo_bundle filename' = Some f"
    "read_bundle max_scan 2 2 f = Inr b"
    "blocks b = [\<lparr>uncompressed_size = 256, compressed_size = 256, block_flags = 0\<rparr>,
                 \<lparr>uncompressed_size = 128, compressed_size = 128, block_flags = 0\<rparr>]"
    "entries b = [\<lparr>entry_offset = 200, entry_size = 256, entry_flags = 4,
                    entry_name = ascii ''MainTexture''\<rparr>,
                  \<lparr>entry_offset = 456, entry_size = 128, entry_flags = 8,
                    entry_name = ascii ''StandardMaterial''\<rparr>]"
    by metis
  then show "\<exists>f b. create_texture_demo_bundle filename' = Some f
      \<and> read_bundle max_scan 2 2 f = Inr b
      \<and> address_space_length (blocks b) = 384
      \<and> map (\<lambda>e. entry_offset e + entry_size e) (entries b) = [456, 584]
      \<and> filter (entry_in_bounds (address_space_length (blocks b))) (entries b) = []"
    by (simp add: address_space_length_def entry_in_bounds_def)
qed

theorem directory_entries_beyond_address_space_witness:
  "(20::nat) < 21
   \<and> (\<exists>f b. create_minimal_unityfs_bundle ''demo_basic.unity3d'' = Some f
        \<and> read_bundle 21 1 1 f = Inr b
        \<and> address_space_length (blocks b) = 128
        \<and> map (\<lambda>e. entry_offset e + entry_size e) (entries b) = [192]
        \<and> filter (entry_in_bounds (address_space_length (blocks b))) (entries b) = [])
   \<and> (\<exists>f b. create_texture_demo_bundle ''demo_textures.unity3d'' = Some f
        \<and> read_bundle 21 2 2 f = Inr b
        \<and> address_space_length (blocks b) = 384
        \<and> map (\<lambda>e. entry_offset e + entry_size e) (entries b) = [456, 584]
        \<and> filter (entry_in_bounds (address_space_length (blocks b))) (entries b) = [])"
proof -
  have h: "(20::nat) < 21" by simp
  from directory_entries_beyond_address_space
    [OF h, of "''demo_basic.unity3d''" "''demo_textures.unity3d''"] h
  show ?thesis by blast
qed

text \<open>
  C3, as the code has it: \<open>create_test_unity_file\<close> writes no format-version integer.
  The twelve bytes after its signature are the version string \<open>2022.3.15f1\<close> and its
  terminator, so a reader of the layout takes the characters \<open>2022\<close> for the format
  version (842019378) and is left with \<open>.3.15f1\<close> as the engine version. The claim
  holds of the two generators of \<open>demo_unity_bundle.py\<close> only.
\<close>

theorem test_file_lacks_format_version:
  assumes "8 < max_scan"
  shows "\<exists>f h rest. create_test_unity_file output_path = Some f
           \<and> take 20 f = ascii ''UnityFS'' @ [0] @ ascii ''2022.3.15f1'' @ [0]
           \<and> read_header max_scan f = Inr (h, rest)
           \<and> format_version h = be_uint (ascii ''2022'')
           \<and> format_version h = 842019378
           \<and> engine_version h = ascii ''.3.15f1''
           \<and> engine_version h \<noteq> ascii ''2022.3.15f1''"
proof -
  from assms test_file_header [of max_scan output_path] obtain f h where
    "create_test_unity_file output_path = Some f"
    "take 20 f = ascii ''UnityFS'' @ [0] @ ascii ''2022.3.15f1'' @ [0]"
    "read_header max_scan f = Inr (h, drop 49 f)"
    "format_version h = 842019378" "engine_version h = ascii ''.3.15f1''"
    by metis
  moreover have "be_uint (ascii ''2022'') = 842019378"
    by (simp add: be_uint_def ascii_def)
  moreover have "ascii ''.3.15f1'' \<noteq> ascii ''2022.3.15f1''"
    by (simp add: ascii_def)
  ultimately show ?thesis by auto
qed

theorem test_file_lacks_format_version_witness:
  "(8::nat) < 9
   \<and> (\<exists>f h rest. create_test_unity_file ''test.unity3d'' = Some f
        \<and> take 20 f = ascii ''UnityFS'' @ [0] @ ascii ''2022.3.15f1'' @ [0]
        \<and> read_header 9 f = Inr (h, rest)
        \<and> format_version h = be_uint (ascii ''2022'')
        \<and> format_version h = 842019378
        \<and> engine_version h = ascii ''.3.15f1''
        \<and> engine_version h \<noteq> ascii ''2022.3.15f1'')"
proof -
  have h: "(8::nat) < 9" by simp
  from test_file_lacks_format_version [OF h, of "''test.unity3d''"] h
  show ?thesis by blast
qed

text \<open>
  C5: every bundle fixture has header flags 0, its compressed and uncompressed
  block-table size fields are equal, and every block descriptor it writes has equal
  compressed and uncompressed sizes (\<open>create_test_unity_file\<close> writes no descriptor).
\<close>

theorem uncompressed_fixture_sizes_agree:
  assumes "20 < max_scan"
  shows "(\<exists>f b. create_minimal_unityfs_bundle filename = Some f
            \<and> read_bundle max_scan 1 1 f = Inr b
            \<and> flags (header b) = 0
            \<and> compressed_blocks_size (header b) = uncompressed_blocks_size (header b)
            \<and> length (blocks b) = 1
            \<and> list_all (\<lambda>d. compressed_size d = uncompressed_size d) (blocks b))
       \<and> (\<exists>f b. create_texture_demo_bundle filename' = Some f
            \<and> read_bundle max_scan 2 2 f = Inr b
            \<and> flags (header b) = 0
            \<and> compressed_blocks_size (header b) = uncompressed_blocks_size (header b)
            \<and> length (blocks b) = 2
            \<and> list_all (\<lambda>d. compressed_size d = uncompressed_size d) (blocks b))
       \<and> (\<exists>f h rest. create_test_unity_file output_path = Some f
            \<and> read_header max_scan f = Inr (h, rest)
            \<and> flags h = 0
            \<and> compressed_blocks_size h = uncompressed_blocks_size h)"
proof (intro conjI)
  from assms minimal_bundle [of max_scan filename] obtain f b where
    "create_minimal_unityfs_bundle filename = Some f"
    "read_bundle max_scan 1 1 f = Inr b"
    "flags (header b) = 0" "compressed_blocks_size (header b) = 48"
    "uncompressed_blocks_size (header b) = 48"
    "blocks b = [\<lparr>uncompressed_size = 128, compressed_size = 128, block_flags = 0\<rparr>]"
    by metis
  then show "\<exists>f b. create_minimal_unityfs_bundle filename = Some f
      \<and> read_bundle max_scan 1 1 f = Inr b
      \<and> flags (header b) = 0
      \<and> compressed_blocks_size (header b) = uncompressed_blocks_size (header b)
      \<and> length (blocks b) = 1
      \<and> list_all (\<lambda>d. compressed_size d = uncompressed_size d) (blocks b)"
    by simp
next
  from assms texture_bundle [of max_scan filename'] obtain f b where
    "create_texture_demo_bundle filename' = Some f"
    "read_bundle max_scan 2 2 f = Inr b"
    "flags (header b) = 0" "compressed_blocks_size (header b) = 64"
    "uncompressed_blocks_size (header b) = 64"
    "blocks b = [\<lparr>uncompressed_size = 256, compressed_size = 256, block_flags = 0\<rparr>,
                 \<lparr>uncompressed_size = 128, compressed_size = 128, block_flags = 0\<rparr>]"
    by metis
  then show "\<exists>f b. create_texture_demo_bundle filename' = Some f
      \<and> read_bundle max_scan 2 2 f = Inr b
      \<and> flags (header b) = 0
      \<and> compressed_blocks_size (header b) = uncompressed_blocks_size (header b)
      \<and> length (blocks b) = 2
      \<and> list_all (\<lambda>d. compressed_size d = uncompressed_size d) (blocks b)"
    by simp
next
  from assms have "8 < max_scan" by simp
  with test_file_header [of max_scan output_path] obtain f h where
    "create_test_unity_file output_path = Some f"
    "read_header max_scan f = Inr (h, drop 49 f)"
    "flags h = 0" "compressed_blocks_size h = 100" "uncompressed_blocks_size h = 100"
    by metis
  then show "\<exists>f h rest. create_test_unity_file output_path = Some f
      \<and> read_header max_scan f = Inr (h, rest)
      \<and> flags h = 0
      \<and> compressed_blocks_size h = uncompressed_blocks_size h"
    by simp
qed

theorem uncompressed_fixture_sizes_agree_witness:
  "(20::nat) < 21
   \<and> (\<exists>f b. create_minimal_unityfs_bundle ''demo_basic.unity3d'' = Some f
        \<and> read_bundle 21 1 1 f = Inr b
        \<and> flags (header b) = 0
        \<and> compressed_blocks_size (header b) = uncompressed_blocks_size (header b)
        \<and> length (blocks b) = 1
        \<and> list_all (\<lambda>d. compressed_size d = uncompressed_size d) (blocks b))
   \<and> (\<exists>f b. create_texture_demo_bundle ''demo_textures.unity3d'' = Some f
        \<and> read_bundle 21 2 2 f = Inr b
        \<and> flags (header b) = 0
        \<and> compressed_blocks_size (header b) = uncompressed_blocks_size (header b)
        \<and> length (blocks b) = 2
        \<and> list_all (\<lambda>d. compressed_size d = uncompressed_size d) (blocks b))
   \<and> (\<exists>f h rest. create_test_unity_file ''test.unity3d'' = Some f
        \<and> read_header 21 f = Inr (h, rest)
        \<and> flags h = 0
        \<and> compressed_blocks_size h = uncompressed_blocks_size h)"
proof -
  have h: "(20::nat) < 21" by simp
  from uncompressed_fixture_sizes_agree
    [OF h, of "''demo_basic.unity3d''" "''demo_textures.unity3d''" "''test.unity3d''"] h
  show ?thesis by blast
qed

text \<open>
  C7: in every bundle file that a fixture generator produces, the declared bundle size
  is at least the length of the header written (57 of 256 bytes, 56 of 512 and 49 of
  1024), and the zero-padded file is exactly as long as the declared bundle size.
\<close>

theorem bundle_size_covers_header_and_file:
  assumes "12 < max_scan"
  shows "(\<exists>f h rest. create_minimal_unityfs_bundle filename = Some f
            \<and> read_header max_scan f = Inr (h, rest)
            \<and> f = write_header h @ rest
            \<and> length (write_header h) = 57 \<and> bundle_size h = 256
            \<and> int (length (write_header h)) \<le> bundle_size h
            \<and> int (length f) = bundle_size h)
       \<and> (\<exists>f h rest. create_texture_demo_bundle filename' = Some f
            \<and> read_header max_scan f = Inr (h, rest)
            \<and> f = write_header h @ rest
            \<and> length (write_header h) = 56 \<and> bundle_size h = 512
            \<and> int (length (write_header h)) \<le> bundle_size h
            \<and> int (length f) = bundle_size h)
       \<and> (\<exists>f h rest. create_test_unity_file output_path = Some f
            \<and> read_header max_scan f = Inr (h, rest)
            \<and> f = write_header h @ rest
            \<and> length (write_header h) = 49 \<and> bundle_size h = 1024
            \<and> int (length (write_header h)) \<le> bundle_size h
            \<and> int (length f) = bundle_size h)"
proof (intro conjI)
  from assms minimal_header [of max_scan filename] obtain f h where
    f: "create_minimal_unityfs_bundle filename = Some f" "length f = 256"
    and h: "read_header max_scan f = Inr (h, drop 57 f)"
      "write_header h @ drop 57 f = f" "bundle_size h = 256"
    by metis
  from header_length_from_rest(1) [OF h(2)] f(2) have "length (write_header h) = 57"
    by simp
  with f h show "\<exists>f h rest. create_minimal_unityfs_bundle filename = Some f
      \<and> read_header max_scan f = Inr (h, rest)
      \<and> f = write_header h @ rest
      \<and> length (write_header h) = 57 \<and> bundle_size h = 256
      \<and> int (length (write_header h)) \<le> bundle_size h
      \<and> int (length f) = bundle_size h"
    by (intro exI [of _ f] exI [of _ h] exI [of _ "drop 57 f"]) simp
next
  from assms texture_header [of max_scan filename'] obtain f h where
    f: "create_texture_demo_bundle filename' = Some f" "length f = 512"
    and h: "read_header max_scan f = Inr (h, drop 56 f)"
      "write_header h @ drop 56 f = f" "bundle_size h = 512"
    by metis
  from header_length_from_rest(1) [OF h(2)] f(2) have "length (write_header h) = 56"
    by simp
  with f h show "\<exists>f h rest. create_texture_demo_bundle filename' = Some f
      \<and> read_header max_scan f = Inr (h, rest)
      \<and> f = write_header h @ rest
      \<and> length (write_header h) = 56 \<and> bundle_size h = 512
      \<and> int (length (write_header h)) \<le> bundle_size h
      \<and> int (length f) = bundle_size h"
    by (intro exI [of _ f] exI [of _ h] exI [of _ "drop 56 f"]) simp
next
  from assms have "8 < max_scan" by simp
  with test_file_header [of max_scan output_path] obtain f h where
    f: "create_test_unity_file output_path = Some f" "length f = 1024"
    and h: "read_header max_scan f = Inr (h, drop 49 f)"
      "write_header h @ drop 49 f = f" "bundle_size h = 1024"
    by metis
  from header_length_from_rest(1) [OF h(2)] f(2) have "length (write_header h) = 49"
    by simp
  with f h show "\<exists>f h rest. create_test_unity_file output_path = Some f
      \<and> read_header max_scan f = Inr (h, rest)
      \<and> f = write_header h @ rest
      \<and> length (write_header h) = 49 \<and> bundle_size h = 1024
      \<and> int (length (write_header h)) \<le> bundle_size h
      \<and> int (length f) = bundle_size h"
    by (intro exI [of _ f] exI [of _ h] exI [of _ "drop 49 f"]) simp
qed

theorem bundle_size_covers_header_and_file_witness:
  "(12::nat) < 13
   \<and> (\<exists>f h rest. create_minimal_unityfs_bundle ''demo_basic.unity3d'' = Some f
        \<and> read_header 13 f = Inr (h, rest)
        \<and> f = write_header h @ rest
        \<and> length (write_header h) = 57 \<and> bundle_size h = 256
        \<and> int (length (write_header h)) \<le> bundle_size h
        \<and> int (length f) = bundle_size h)
   \<and> (\<exists>f h rest. create_texture_demo_bundle ''demo_textures.unity3d'' = Some f
        \<and> read_header 13 f = Inr (h, rest)
        \<and> f = write_header h @ rest
        \<and> length (write_header h) = 56 \<and> bundle_size h = 512
        \<and> int (length (write_header h)) \<le> bundle_size h
        \<and> int (length f) = bundle_size h)
   \<and> (\<exists>f h rest. create_test_unity_file ''test.unity3d'' = Some f
        \<and> read_header 13 f = Inr (h, rest)
        \<and> f = write_header h @ rest
        \<and> length (write_header h) = 49 \<and> bundle_size h = 1024
        \<and> int (length (write_header h)) \<le> bundle_size h
        \<and> int (length f) = bundle_size h)"
proof -
  have h: "(12::nat) < 13" by simp
  from bundle_size_covers_header_and_file
    [OF h, of "''demo_basic.unity3d''" "''demo_textures.unity3d''" "''test.unity3d''"] h
  show ?thesis by blast
qed

text \<open>
  C8: the header of every fixture bundle survives the round trip. The reader accepts
  the file, and the parsed header, written back in the layout, is again the header
  bytes of the file: its first 57, 56 and 49 bytes.
\<close>

theorem fixture_header_roundtrip:
  assumes "12 < max_scan"
  shows "(\<exists>f h rest. create_minimal_unityfs_bundle filename = Some f
            \<and> read_header max_scan f = Inr (h, rest)
            \<and> write_header h = take 57 f \<and> rest = drop 57 f)
       \<and> (\<exists>f h rest. create_texture_demo_bundle filename' = Some f
            \<and> read_header max_scan f = Inr (h, rest)
            \<and> write_header h = take 56 f \<and> rest = drop 56 f)
       \<and> (\<exists>f h rest. create_test_unity_file output_path = Some f
            \<and> read_header max_scan f = Inr (h, rest)
            \<and> write_header h = take 49 f \<and> rest = drop 49 f)"
proof (intro conjI)
  from assms minimal_header [of max_scan filename] obtain f h where
    f: "create_minimal_unityfs_bundle filename = Some f" "length f = 256"
    and h: "read_header max_scan f = Inr (h, drop 57 f)"
    by metis
  from read_header_write_header [OF h] have "write_header h @ drop 57 f = f" .
  from header_length_from_rest(2) [OF this] f(2) have "write_header h = take 57 f"
    by simp
  with f h show "\<exists>f h rest. create_minimal_unityfs_bundle filename = Some f
      \<and> read_header max_scan f = Inr (h, rest)
      \<and> write_header h = take 57 f \<and> rest = drop 57 f"
    by blast
next
  from assms texture_header [of max_scan filename'] obtain f h where
    f: "create_texture_demo_bundle filename' = Some f" "length f = 512"
    and h: "read_header max_scan f = Inr (h, drop 56 f)"
    by metis
  from read_header_write_header [OF h] have "write_header h @ drop 56 f = f" .
  from header_length_from_rest(2) [OF this] f(2) have "write_header h = take 56 f"
    by simp
  with f h show "\<exists>f h rest. create_texture_demo_bundle filename' = Some f
      \<and> read_header max_scan f = Inr (h, rest)
      \<and> write_header h = take 56 f \<and> rest = drop 56 f"
    by blast
next
  from assms have "8 < max_scan" by simp
  with test_file_header [of max_scan output_path] obtain f h where
    f: "create_test_unity_file output_path = Some f" "length f = 1024"
    and h: "read_header max_scan f = Inr (h, drop 49 f)"
    by metis
  from read_header_write_header [OF h] have "write_header h @ drop 49 f = f" .
  from header_length_from_rest(2) [OF this] f(2) have "write_header h = take 49 f"
    by simp
  with f h show "\<exists>f h rest. create_test_unity_file output_path = Some f
      \<and> read_header max_scan f = Inr (h, rest)
      \<and> write_header h = take 49 f \<and> rest = drop 49 f"
    by blast
qed

theorem fixture_header_roundtrip_witness:
  "(12::nat) < 13
   \<and> (\<exists>f h rest. create_minimal_unityfs_bundle ''demo_basic.unity3d'' = Some f
        \<and> read_header 13 f = Inr (h, rest)
        \<and> write_header h = take 57 f \<and> rest = drop 57 f)
   \<and> (\<exists>f h rest. create_texture_demo_bundle ''demo_textures.unity3d'' = Some f
        \<and> read_header 13 f = Inr (h, rest)
        \<and> write_header h = take 56 f \<and> rest = drop 56 f)
   \<and> (\<exists>f h rest. create_test_unity_file ''test.unity3d'' = Some f
        \<and> read_header 13 f = Inr (h, rest)
        \<and> write_header h = take 49 f \<and> rest = drop 49 f)"
proof -
  have h: "(12::nat) < 13" by simp
  from fixture_header_roundtrip
    [OF h, of "''demo_basic.unity3d''" "''demo_textures.unity3d''" "''test.unity3d''"] h
  show ?thesis by blast
qed

section \<open>What the glTF generator packs\<close>

text \<open>Unfolding a recursion over a width or an exponent that is written as a numeral.\<close>

lemma be_bytes_numeral:
  "be_bytes (numeral n) v = be_bytes (pred_numeral n) (v div 256) @ [of_int (v mod 256)]"
  by (simp add: numeral_eq_Suc [of n])

lemma f32_exponent_numeral:
  "f32_exponent (numeral n) a =
     (if 2 ^ (pred_numeral n + 23) \<le> a then numeral n else f32_exponent (pred_numeral n) a)"
  by (simp add: numeral_eq_Suc [of n])

lemma floor_rat_numeral_divide:
  "\<lfloor>numeral a / numeral b :: rat\<rfloor> = numeral a div numeral b"
  by (metis floor_divide_of_int_eq of_int_numeral)

lemma floor_rat_one_divide:
  "\<lfloor>1 / numeral b :: rat\<rfloor> = 1 div numeral b"
  by (metis floor_divide_of_int_eq of_int_1 of_int_numeral)

lemmas f32_eval =
  struct_pack_le_f_def f32_bits_def f32_magnitude_def f32_shift_def f32_exponent_numeral
  round_half_even_def Let_def floor_rat_numeral_divide floor_rat_one_divide be_bytes_numeral

text \<open>The five float values of the cube, in binary32: \<open>0x3F000000\<close> is 0.5, and so on.\<close>

lemma pack_half: "struct_pack_le_f (1 / 2) = Some [0, 0, 0, 63]"
  by (simp add: f32_eval)

lemma pack_minus_half: "struct_pack_le_f (- (1 / 2)) = Some [0, 0, 0, 191]"
  by (simp add: f32_eval)

lemma pack_zero: "struct_pack_le_f 0 = Some [0, 0, 0, 0]"
  by (simp add: f32_eval)

lemma pack_one: "struct_pack_le_f 1 = Some [0, 0, 128, 63]"
  by (simp add: f32_eval)

lemma pack_minus_one: "struct_pack_le_f (- 1) = Some [0, 0, 128, 191]"
  by (simp add: f32_eval)

lemmas pack_floats = pack_half pack_minus_half pack_zero pack_one pack_minus_one

text \<open>
  The conversion on values that need rounding or fall out of the range: one tenth is
  \<open>0x3DCCCCCD\<close>, the largest float is \<open>0x7F7FFFFF\<close>, the tie above it overflows, the
  smallest subnormal is 1 and half of it rounds to 0.
\<close>

lemma f32_bits_rounding:
  "f32_bits (1 / 10) = Some 1036831949"
  "f32_bits (- (314159 / 100000)) = Some 3226013648"
  "f32_bits 340282346638528859811704183484516925440 = Some 2139095039"
  "f32_bits 340282356779733661637539395458142568448 = None"
  "f32_bits (1 / 2 ^ 149) = Some 1"
  "f32_bits (1 / 2 ^ 150) = Some 0"
  "f32_bits (3 / 2 ^ 150) = Some 2"
  by (simp_all add: f32_eval)

lemmas pack_shorts = struct_pack_le_def struct_pack_be_def be_bytes_numeral

text \<open>Each of the four loops alone, started on an empty \<open>bytearray\<close>.\<close>

lemma positions_stream:
  "extend_each struct_pack_le_f positions [] = Some
     [
      0, 0, 0, 191, 0, 0, 0, 191, 0, 0, 0, 63,
      0, 0, 0, 63, 0, 0, 0, 191, 0, 0, 0, 63,
      0, 0, 0, 63, 0, 0, 0, 63, 0, 0, 0, 63,
      0, 0, 0, 191, 0, 0, 0, 63, 0, 0, 0, 63,
      0, 0, 0, 191, 0, 0, 0, 191, 0, 0, 0, 191,
      0, 0, 0, 63, 0, 0, 0, 191, 0, 0, 0, 191,
      0, 0, 0, 63, 0, 0, 0, 63, 0, 0, 0, 191,
      0, 0, 0, 191, 0, 0, 0, 63, 0, 0, 0, 191]"
  by (simp add: positions_def pack_floats)

lemma normals_stream:
  "extend_each struct_pack_le_f normals [] = Some
     [
      0, 0, 0, 0, 0, 0, 0, 0, 0, 0, 128, 63,
      0, 0, 0, 0, 0, 0, 0, 0, 0, 0, 128, 191,
      0, 0, 128, 191, 0, 0, 0, 0, 0, 0, 0, 0,
      0, 0, 128, 63, 0, 0, 0, 0, 0, 0, 0, 0,
      0, 0, 0, 0, 0, 0, 128, 63, 0, 0, 0, 0,
      0, 0, 0, 0, 0, 0, 128, 191, 0, 0, 0, 0]"
  by (simp add: normals_def pack_floats)

lemma uvs_stream:
  "extend_each struct_pack_le_f uvs [] = Some
     [
      0, 0, 0, 0, 0, 0, 0, 0, 0, 0, 128, 63, 0, 0, 0, 0,
      0, 0, 128, 63, 0, 0, 128, 63, 0, 0, 0, 0, 0, 0, 128, 63,
      0, 0, 0, 0, 0, 0, 0, 0, 0, 0, 128, 63, 0, 0, 0, 0,
      0, 0, 128, 63, 0, 0, 128, 63, 0, 0, 0, 0, 0, 0, 128, 63,
      0, 0, 0, 0, 0, 0, 0, 0, 0, 0, 128, 63, 0, 0, 0, 0,
      0, 0, 128, 63, 0, 0, 128, 63, 0, 0, 0, 0, 0, 0, 128, 63]"
  by (simp add: uvs_def pack_floats)

lemma indices_stream:
  "extend_each (struct_pack_le 2) indices [] = Some
     [
      0, 0, 1, 0, 2, 0, 0, 0, 2, 0, 3, 0,
      5, 0, 4, 0, 7, 0, 5, 0, 7, 0, 6, 0,
      4, 0, 0, 0, 3, 0, 4, 0, 3, 0, 7, 0,
      1, 0, 5, 0, 6, 0, 1, 0, 6, 0, 2, 0,
      3, 0, 2, 0, 6, 0, 3, 0, 6, 0, 7, 0,
      4, 0, 5, 0, 1, 0, 4, 0, 1, 0, 0, 0]"
  by (simp add: indices_def pack_shorts)

text \<open>The generator raises nothing; this is the document and the buffer it returns.\<close>

lemma cube_eval:
  "create_cube_mesh_gltf = Some
     (\<lparr>asset = \<lparr>version = ''2.0'', generator = ''Aegis-Assets glTF Demo''\<rparr>,
        scene = 0,
        scenes = [\<lparr>scene_name = ''Scene'', scene_nodes = [0]\<rparr>],
        nodes = [\<lparr>node_name = ''Cube'', node_mesh = 0\<rparr>],
        meshes = [\<lparr>mesh_name = ''Cube'', primitives = [\<lparr>
          attributes = [(''POSITION'', 0), (''NORMAL'', 1), (''TEXCOORD_0'', 2)],
          prim_indices = 3, mode = 4\<rparr>]\<rparr>],
        bufferViews = [\<lparr>bv_buffer = 0, bv_byteOffset = 0, bv_byteLength = 336,
          bv_target = 34962\<rparr>],
        buffers = [\<lparr>buf_byteLength = 336, buf_uri = ''cube.bin''\<rparr>],
        accessors = [
          \<lparr>acc_bufferView = 0, acc_byteOffset = 0, acc_componentType = 5126,
           acc_count = 8, acc_type = ''VEC3'',
           acc_min = Some [- (1 / 2), - (1 / 2), - (1 / 2)],
           acc_max = Some [1 / 2, 1 / 2, 1 / 2]\<rparr>,
          \<lparr>acc_bufferView = 0, acc_byteOffset = 96, acc_componentType = 5126,
           acc_count = 8, acc_type = ''VEC3'', acc_min = None, acc_max = None\<rparr>,
          \<lparr>acc_bufferView = 0, acc_byteOffset = 192, acc_componentType = 5126,
           acc_count = 8, acc_type = ''VEC2'', acc_min = None, acc_max = None\<rparr>,
          \<lparr>acc_bufferView = 0, acc_byteOffset = 256, acc_componentType = 5123,
           acc_count = 36, acc_type = ''SCALAR'', acc_min = None, acc_max = None\<rparr>]\<rparr>,
      [
      0, 0, 0, 191, 0, 0, 0, 191, 0, 0, 0, 63,
      0, 0, 0, 63, 0, 0, 0, 191, 0, 0, 0, 63,
      0, 0, 0, 63, 0, 0, 0, 63, 0, 0, 0, 63,
      0, 0, 0, 191, 0, 0, 0, 63, 0, 0, 0, 63,
      0, 0, 0, 191, 0, 0, 0, 191, 0, 0, 0, 191,
      0, 0, 0, 63, 0, 0, 0, 191, 0, 0, 0, 191,
      0, 0, 0, 63, 0, 0, 0, 63, 0, 0, 0, 191,
      0, 0, 0, 191, 0, 0, 0, 63, 0, 0, 0, 191]
      @ [
      0, 0, 0, 0, 0, 0, 0, 0, 0, 0, 128, 63,
      0, 0, 0, 0, 0, 0, 0, 0, 0, 0, 128, 191,
      0, 0, 128, 191, 0, 0, 0, 0, 0, 0, 0, 0,
      0, 0, 128, 63, 0, 0, 0, 0, 0, 0, 0, 0,
      0, 0, 0, 0, 0, 0, 128, 63, 0, 0, 0, 0,
      0, 0, 0, 0, 0, 0, 128, 191, 0, 0, 0, 0]
      @ [
      0, 0, 0, 0, 0, 0, 0, 0, 0, 0, 128, 63, 0, 0, 0, 0,
      0, 0, 128, 63, 0, 0, 128, 63, 0, 0, 0, 0, 0, 0, 128, 63,
      0, 0, 0, 0, 0, 0, 0, 0, 0, 0, 128, 63, 0, 0, 0, 0,
      0, 0, 128, 63, 0, 0, 128, 63, 0, 0, 0, 0, 0, 0, 128, 63,
      0, 0, 0, 0, 0, 0, 0, 0, 0, 0, 128, 63, 0, 0, 0, 0,
      0, 0, 128, 63, 0, 0, 128, 63, 0, 0, 0, 0, 0, 0, 128, 63]
      @ [
      0, 0, 1, 0, 2, 0, 0, 0, 2, 0, 3, 0,
      5, 0, 4, 0, 7, 0, 5, 0, 7, 0, 6, 0,
      4, 0, 0, 0, 3, 0, 4, 0, 3, 0, 7, 0,
      1, 0, 5, 0, 6, 0, 1, 0, 6, 0, 2, 0,
      3, 0, 2, 0, 6, 0, 3, 0, 6, 0, 7, 0,
      4, 0, 5, 0, 1, 0, 4, 0, 1, 0, 0, 0],
      indices)"
  by (simp add: create_cube_mesh_gltf_def positions_def normals_def uvs_def indices_def
      pack_floats pack_shorts)

section \<open>Claims about the glTF cube fixture\<close>

lemmas accessor_eval =
  attribute_accessor_def indices_accessor_def first_primitive_def list_get_def
  accessor_bytes_def component_size_def type_components_def

lemmas unpack_eval = f32_value_def le_uint_def be_uint_def Let_def

text \<open>
  C1: the export of the cube declares 8 vertices in its POSITION accessor and 36 indices
  in its index accessor, which is 12 triangles; the POSITION accessor declares the bounds
  [-0.5, -0.5, -0.5] and [0.5, 0.5, 0.5], and these are the componentwise minimum and
  maximum of the 8 position vectors that the accessor finds in the binary buffer, which
  are the positions of the source.
\<close>

theorem cube_counts_and_bounds:
  "\<exists>g bd idx pa ia vs.
     create_cube_mesh_gltf = Some (g, bd, idx)
     \<and> attribute_accessor g ''POSITION'' = Some pa \<and> acc_count pa = 8
     \<and> indices_accessor g = Some ia \<and> acc_count ia = 36
     \<and> int (length idx) = 36 \<and> int (length idx) div 3 = 12
     \<and> acc_min pa = Some [-0.5, -0.5, -0.5] \<and> acc_max pa = Some [0.5, 0.5, 0.5]
     \<and> Option.bind (accessor_bytes g pa bd) unpack_le_f = Some vs
     \<and> vs = positions \<and> length (vec3s vs) = 8
     \<and> componentwise min (vec3s vs) = acc_min pa
     \<and> componentwise max (vec3s vs) = acc_max pa"
  by (simp add: cube_eval accessor_eval unpack_eval positions_def indices_def
      componentwise_def)

text \<open>
  C4, as the code has it: only the positions lie where their accessor says. The
  generator packs 18 normal floats (6 vectors, 72 bytes) and 24 texture floats (12
  pairs, 96 bytes), while the accessors declare 8 elements each and the offsets 192 and
  256, computed for 8 normals and 8 pairs. The texture coordinates start at byte 168 and
  the indices at byte 264, so the index accessor finds the last two texture floats and
  the first 32 indices.
\<close>

theorem cube_accessor_offsets_disagree:
  "\<exists>g bd idx P N U I na ta ia.
     create_cube_mesh_gltf = Some (g, bd, idx)
     \<and> extend_each struct_pack_le_f positions [] = Some P
     \<and> extend_each struct_pack_le_f normals [] = Some N
     \<and> extend_each struct_pack_le_f uvs [] = Some U
     \<and> extend_each (struct_pack_le 2) indices [] = Some I
     \<and> bd = P @ N @ U @ I
     \<and> attribute_accessor g ''NORMAL'' = Some na
     \<and> attribute_accessor g ''TEXCOORD_0'' = Some ta
     \<and> indices_accessor g = Some ia
     \<and> acc_byteOffset na = 96 \<and> int (length P) = 96
     \<and> acc_byteOffset ta = 192 \<and> int (length (P @ N)) = 168
     \<and> acc_byteOffset ia = 256 \<and> int (length (P @ N @ U)) = 264
     \<and> acc_count na = 8 \<and> length (vec3s normals) = 6
     \<and> acc_count ta = 8 \<and> length uvs div 2 = 12
     \<and> Option.bind (accessor_bytes g ia bd) unpack_le_H
         = Some ([0, 0, 0, 16256] @ take 32 indices)"
proof -
  have counts: "length (vec3s normals) = 6" "length uvs div 2 = 12"
    by (simp_all add: normals_def uvs_def)
  have found: "take 32 indices =
      [0, 1, 2, 0, 2, 3, 5, 4, 7, 5, 7, 6, 4, 0, 3, 4, 3, 7,
       1, 5, 6, 1, 6, 2, 3, 2, 6, 3, 6, 7, 4, 5]"
    by (simp add: indices_def)
  show ?thesis
    by (simp add: cube_eval positions_stream normals_stream uvs_stream indices_stream
        accessor_eval unpack_eval counts found)
qed

text \<open>
  C6: no index of the cube exceeds 65535; the indices are the last stream of the buffer,
  two bytes each, and read as little-endian unsigned 16-bit integers they are the index
  list of the source in its order; the index accessor declares component type 5123
  (UNSIGNED_SHORT) and count 36, the length of that list.
\<close>

theorem cube_indices_packed_in_order:
  "\<exists>g bd idx I ia.
     create_cube_mesh_gltf = Some (g, bd, idx) \<and> idx = indices
     \<and> list_all (\<lambda>i. i \<le> 65535) indices
     \<and> extend_each (struct_pack_le 2) indices [] = Some I
     \<and> length I = 2 * length indices
     \<and> drop (length bd - length I) bd = I
     \<and> unpack_le_H I = Some indices
     \<and> indices_accessor g = Some ia
     \<and> acc_componentType ia = 5123 \<and> acc_count ia = 36
     \<and> int (length indices) = acc_count ia"
proof -
  have small: "list_all (\<lambda>i. i \<le> 65535) indices" and len: "length indices = 36"
    by (simp_all add: indices_def)
  have read: "unpack_le_H
      [0, 0, 1, 0, 2, 0, 0, 0, 2, 0, 3, 0,
       5, 0, 4, 0, 7, 0, 5, 0, 7, 0, 6, 0,
       4, 0, 0, 0, 3, 0, 4, 0, 3, 0, 7, 0,
       1, 0, 5, 0, 6, 0, 1, 0, 6, 0, 2, 0,
       3, 0, 2, 0, 6, 0, 3, 0, 6, 0, 7, 0,
       4, 0, 5, 0, 1, 0, 4, 0, 1, 0, 0, 0] = Some indices"
    by (simp add: unpack_eval indices_def)
  show ?thesis
    by (simp add: cube_eval indices_stream accessor_eval small len read
        del: unpack_le_H.simps)
qed

text \<open>
  C9: the byteLength of the buffer and of the buffer view are both the length of the
  binary buffer, 336 bytes, which is 96 bytes of positions, 72 of normals, 96 of texture
  coordinates and 72 of indices, in this order.
\<close>

theorem cube_buffer_lengths:
  "\<exists>g bd idx P N U I.
     create_cube_mesh_gltf = Some (g, bd, idx)
     \<and> map buf_byteLength (buffers g) = [int (length bd)]
     \<and> map bv_byteLength (bufferViews g) = [int (length bd)]
     \<and> length bd = 336
     \<and> extend_each struct_pack_le_f positions [] = Some P
     \<and> extend_each struct_pack_le_f normals [] = Some N
     \<and> extend_each struct_pack_le_f uvs [] = Some U
     \<and> extend_each (struct_pack_le 2) indices [] = Some I
     \<and> bd = P @ N @ U @ I
     \<and> length P = 96 \<and> length N = 72 \<and> length U = 96 \<and> length I = 72"
  by (simp add: cube_eval positions_stream normals_stream uvs_stream indices_stream)

text \<open>
  C10: each of the 36 indices of the cube is a vertex that exists: it is not negative
  and less than 8, the count of the POSITION accessor.
\<close>

theorem cube_indices_in_range:
  "\<exists>g bd idx pa.
     create_cube_mesh_gltf = Some (g, bd, idx) \<and> idx = indices \<and> length idx = 36
     \<and> attribute_accessor g ''POSITION'' = Some pa \<and> acc_count pa = 8
     \<and> list_all (\<lambda>i. 0 \<le> i \<and> i < acc_count pa) idx"
  by (simp add: cube_eval accessor_eval indices_def)

end
